theory Spec2Isabelle
  imports Main
begin

section \<open>The theme controller of astro-themes-next\<close>

text \<open>
  The inline script of \<^verbatim>\<open>AstroThemesNext.astro\<close> and the two helpers of
  \<^verbatim>\<open>utils.ts\<close>, embedded as functions on an explicit browser state.

  A JavaScript value that is a string, \<^verbatim>\<open>null\<close> or \<^verbatim>\<open>undefined\<close> is a
  \<^typ>\<open>string option\<close>; \<open>None\<close> stands for both \<^verbatim>\<open>null\<close> and \<^verbatim>\<open>undefined\<close>,
  which the script never tells apart. Such a value is truthy when it is a non-empty string.
\<close>

definition truthy :: "string option \<Rightarrow> bool" where
  "truthy v = (case v of None \<Rightarrow> False | Some s \<Rightarrow> s \<noteq> [])"

definition startsWith :: "string \<Rightarrow> string \<Rightarrow> bool" where
  "startsWith s p = (take (length p) s = p)"

subsection \<open>Configuration\<close>

text \<open>
  The variables that \<^verbatim>\<open>define:vars\<close> hands to the script, after the defaults of the
  frontmatter have been filled in (so \<open>defaultTheme\<close> and \<open>storageKey\<close> are strings).
  \<open>attribute\<close> is one attribute name or an array of them; \<open>value_obj\<close> is the optional
  \<^verbatim>\<open>value\<close> object, given by its own properties: a list of (theme name, attribute value)
  pairs with distinct keys.
\<close>

datatype attribute_spec = Single string | Many "string list"

record config =
  forcedTheme :: "string option"
  disableTransitionOnChange :: bool
  enableSystem :: bool
  enableColorScheme :: bool
  storageKey :: string
  themes :: "string list"
  defaultTheme :: string
  attribute :: attribute_spec
  value_obj :: "(string \<times> string) list option"
  nonce :: "string option"

subsection \<open>Browser state\<close>

text \<open>
  The root element carries its class list (a \<^verbatim>\<open>DOMTokenList\<close>: an ordered set of
  tokens), its other attributes, keyed by their lower-case names, and the
  \<^verbatim>\<open>color-scheme\<close> property of its inline style (\<open>None\<close> when the property is not set).
\<close>

record element =
  classList :: "string list"
  attributes :: "string \<Rightarrow> string option"
  colorScheme :: "string option"

record style_el =
  se_nonce :: "string option"
  se_text :: string

datatype js_error =
  SecurityError | QuotaExceededError | SyntaxError | InvalidCharacterError | ReferenceError

text \<open>
  \<open>localStorage\<close> is a map from keys to strings that may be unavailable (every access
  throws) or full (every write throws). \<open>prefersDark\<close> is the current answer of the media
  query \<^verbatim>\<open>(prefers-color-scheme: dark)\<close>. \<open>head\<close> holds the style elements the script
  appended to the document head, each with the identity of its node, and \<open>timers\<close> the
  nodes whose removal \<^verbatim>\<open>setTimeout\<close> has scheduled.
\<close>

record browser =
  ls_available :: bool
  ls_full :: bool
  ls_items :: "string \<Rightarrow> string option"
  prefersDark :: bool
  documentElement :: element
  head :: "(nat \<times> style_el) list"
  timers :: "nat list"
  next_node :: nat

definition ls_getItem :: "string \<Rightarrow> browser \<Rightarrow> js_error + string option" where
  "ls_getItem k w = (if ls_available w then Inr (ls_items w k) else Inl SecurityError)"

definition ls_setItem :: "string \<Rightarrow> string \<Rightarrow> browser \<Rightarrow> js_error + browser" where
  "ls_setItem k v w =
     (if \<not> ls_available w then Inl SecurityError
      else if ls_full w then Inl QuotaExceededError
      else Inr (w\<lparr>ls_items := (ls_items w)(k \<mapsto> v)\<rparr>))"

subsection \<open>DOM calls\<close>

text \<open>
  \<^verbatim>\<open>classList.add\<close> and \<^verbatim>\<open>classList.remove\<close> first validate every token, in order: an
  empty token throws \<^verbatim>\<open>SyntaxError\<close>, a token with ASCII white space throws
  \<^verbatim>\<open>InvalidCharacterError\<close>; only then is the token set changed.
\<close>

definition ascii_whitespace :: "char list" where
  "ascii_whitespace = [CHR 0x09, CHR 0x0A, CHR 0x0C, CHR 0x0D, CHR '' '']"

definition validate_token :: "string \<Rightarrow> js_error option" where
  "validate_token t =
     (if t = [] then Some SyntaxError
      else if list_ex (\<lambda>c. c \<in> set ascii_whitespace) t then Some InvalidCharacterError
      else None)"

fun validate_tokens :: "string list \<Rightarrow> js_error option" where
  "validate_tokens [] = None"
| "validate_tokens (t # ts) =
     (case validate_token t of Some e \<Rightarrow> Some e | None \<Rightarrow> validate_tokens ts)"

definition classList_remove :: "string list \<Rightarrow> string list \<Rightarrow> js_error + string list" where
  "classList_remove tokens cl =
     (case validate_tokens tokens of
        Some e \<Rightarrow> Inl e
      | None \<Rightarrow> Inr (filter (\<lambda>c. c \<notin> set tokens) cl))"

definition classList_add :: "string \<Rightarrow> string list \<Rightarrow> js_error + string list" where
  "classList_add token cl =
     (case validate_token token of
        Some e \<Rightarrow> Inl e
      | None \<Rightarrow> Inr (if token \<in> set cl then cl else cl @ [token]))"

text \<open>
  \<^verbatim>\<open>setAttribute\<close> throws \<^verbatim>\<open>InvalidCharacterError\<close> when the name is not a valid
  attribute local name of the DOM Standard (non-empty, without ASCII white space, NUL,
  \<^verbatim>\<open>/\<close>, \<^verbatim>\<open>=\<close> or \<^verbatim>\<open>>\<close>). On an HTML element of an HTML document, as the root element
  is, \<^verbatim>\<open>setAttribute\<close> and \<^verbatim>\<open>removeAttribute\<close> put the name in ASCII lower case.
  \<^verbatim>\<open>removeAttribute\<close> does not throw.
\<close>

definition ascii_lower_char :: "char \<Rightarrow> char" where
  "ascii_lower_char c =
     (case map_of (zip ''ABCDEFGHIJKLMNOPQRSTUVWXYZ'' ''abcdefghijklmnopqrstuvwxyz'') c of
        Some l \<Rightarrow> l
      | None \<Rightarrow> c)"

definition ascii_lower :: "string \<Rightarrow> string" where
  "ascii_lower s = map ascii_lower_char s"

definition valid_attribute_name :: "string \<Rightarrow> bool" where
  "valid_attribute_name a =
     (a \<noteq> [] \<and>
      \<not> list_ex (\<lambda>c. c \<in> set (ascii_whitespace @ [CHR 0x00, CHR ''/'', CHR ''='', CHR ''>''])) a)"

definition setAttribute :: "string \<Rightarrow> string \<Rightarrow> element \<Rightarrow> js_error + element" where
  "setAttribute a v d =
     (if valid_attribute_name a
      then Inr (d\<lparr>attributes := (attributes d)(ascii_lower a \<mapsto> v)\<rparr>)
      else Inl InvalidCharacterError)"

definition removeAttribute :: "string \<Rightarrow> element \<Rightarrow> element" where
  "removeAttribute a d = d\<lparr>attributes := (attributes d)(ascii_lower a := None)\<rparr>"

text \<open>
  Reading a property of the \<^verbatim>\<open>value\<close> object finds its own properties first and then
  the members of \<^verbatim>\<open>Object.prototype\<close>. Such a member is a function (for
  \<^verbatim>\<open>__proto__\<close>, the prototype object): it is truthy, and the DOM calls receive it as a
  string, taken here at once. The text of a built-in function is implementation-defined
  within the \<^verbatim>\<open>NativeFunction\<close> syntax; \<open>native_source\<close> is the form V8 prints. In every
  engine it is non-empty and contains white space.
\<close>

definition object_prototype_members :: "string list" where
  "object_prototype_members =
     [''constructor'', ''__defineGetter__'', ''__defineSetter__'', ''hasOwnProperty'',
      ''__lookupGetter__'', ''__lookupSetter__'', ''isPrototypeOf'', ''propertyIsEnumerable'',
      ''toString'', ''valueOf'', ''__proto__'', ''toLocaleString'']"

definition native_source :: "string \<Rightarrow> string" where
  "native_source k =
     (if k = ''__proto__'' then ''[object Object]''
      else ''function '' @ k @ ''() { [native code] }'')"

definition get_property :: "(string \<times> string) list \<Rightarrow> string \<Rightarrow> string option" where
  "get_property obj k =
     (case map_of obj k of
        Some v \<Rightarrow> Some v
      | None \<Rightarrow> (if k \<in> set object_prototype_members then Some (native_source k) else None))"

subsection \<open>Helpers of the script\<close>

definition colorSchemes :: "string list" where
  "colorSchemes = [''light'', ''dark'']"

text \<open>\<^verbatim>\<open>getTheme(key, fallback)\<close>: a failed read leaves \<open>theme\<close> undefined.\<close>

definition getTheme :: "string \<Rightarrow> string \<Rightarrow> browser \<Rightarrow> string" where
  "getTheme k fallback w =
     (let theme = (case ls_getItem k w of
                     Inl e \<Rightarrow> None
                   | Inr v \<Rightarrow> (if truthy v then v else None))
      in case theme of
           None \<Rightarrow> fallback
         | Some t \<Rightarrow> (if t = [] then fallback else t))"

definition getSystemTheme :: "browser \<Rightarrow> string" where
  "getSystemTheme w =
     (let isDark = prefersDark w;
          systemTheme = (if isDark then ''dark'' else ''light'')
      in systemTheme)"

definition getResolveTheme :: "config \<Rightarrow> browser \<Rightarrow> string" where
  "getResolveTheme cfg w =
     (let theme = getTheme (storageKey cfg) (defaultTheme cfg) w
      in if theme = ''system'' then getSystemTheme w else theme)"

definition transition_css :: string where
  "transition_css =
     ''*,*::before,*::after{-webkit-transition:none!important;-moz-transition:none!important;-o-transition:none!important;-ms-transition:none!important;transition:none!important}''"

text \<open>
  \<^verbatim>\<open>disableAnimation(nonce)\<close> appends a style element to the head and returns a closure
  over that node; the closure is the node's identity here, and \<open>enable_fn\<close> is what
  calling it does: it schedules the removal that \<open>run_timer\<close> carries out.
\<close>

definition disableAnimation :: "string option \<Rightarrow> browser \<Rightarrow> nat \<times> browser" where
  "disableAnimation n w =
     (let css = \<lparr>se_nonce = (if truthy n then n else None), se_text = transition_css\<rparr>;
          node = next_node w
      in (node, w\<lparr>head := head w @ [(node, css)], next_node := Suc node\<rparr>))"

definition enable_fn :: "nat \<Rightarrow> browser \<Rightarrow> browser" where
  "enable_fn node w = w\<lparr>timers := timers w @ [node]\<rparr>"

definition run_timer :: "browser \<Rightarrow> browser" where
  "run_timer w =
     (case timers w of
        [] \<Rightarrow> w
      | node # rest \<Rightarrow> w\<lparr>head := filter (\<lambda>(i, s). i \<noteq> node) (head w), timers := rest\<rparr>)"

definition saveToLS :: "string \<Rightarrow> string \<Rightarrow> browser \<Rightarrow> browser" where
  "saveToLS k v w = (case ls_setItem k v w of Inl e \<Rightarrow> w | Inr w' \<Rightarrow> w')"

text \<open>\<^verbatim>\<open>const attrs = !value ? themes : Object.keys(value)\<close>\<close>

definition attrs :: "config \<Rightarrow> string list" where
  "attrs cfg = (case value_obj cfg of None \<Rightarrow> themes cfg | Some v \<Rightarrow> map fst v)"

subsection \<open>applyTheme\<close>

text \<open>The locals \<open>resolved\<close>, \<open>name\<close> and \<open>colorScheme\<close> of \<^verbatim>\<open>applyTheme\<close>, for a truthy theme.\<close>

definition resolved_of :: "config \<Rightarrow> string \<Rightarrow> browser \<Rightarrow> string" where
  "resolved_of cfg theme w =
     (if theme = ''system'' \<and> enableSystem cfg then getSystemTheme w else theme)"

definition name_of :: "config \<Rightarrow> string \<Rightarrow> string option" where
  "name_of cfg resolved =
     (case value_obj cfg of None \<Rightarrow> Some resolved | Some v \<Rightarrow> get_property v resolved)"

definition colorScheme_of :: "config \<Rightarrow> string \<Rightarrow> string option" where
  "colorScheme_of cfg resolved =
     (let fallback = (if defaultTheme cfg \<in> set colorSchemes then Some (defaultTheme cfg) else None)
      in if resolved \<in> set colorSchemes then Some resolved else fallback)"

text \<open>
  \<open>handleAttribute\<close> returns the element as the calls left it and the exception thrown,
  if any: a throwing \<^verbatim>\<open>classList.add\<close> comes after the removal has been done.
  \<open>forEach\<close> stops at the first exception.
\<close>

definition handleAttribute ::
  "string list \<Rightarrow> string option \<Rightarrow> string \<Rightarrow> element \<Rightarrow> element \<times> js_error option" where
  "handleAttribute as name attr d =
     (if attr = ''class'' then
        (case classList_remove as (classList d) of
           Inl err \<Rightarrow> (d, Some err)
         | Inr cl1 \<Rightarrow>
             (let d1 = d\<lparr>classList := cl1\<rparr>
              in case name of
                   None \<Rightarrow> (d1, None)
                 | Some n \<Rightarrow>
                     (if n = [] then (d1, None)
                      else (case classList_add n (classList d1) of
                              Inl err \<Rightarrow> (d1, Some err)
                            | Inr cl2 \<Rightarrow> (d1\<lparr>classList := cl2\<rparr>, None)))))
      else if startsWith attr ''data-'' then
        (case name of
           None \<Rightarrow> (removeAttribute attr d, None)
         | Some n \<Rightarrow>
             (if n = [] then (removeAttribute attr d, None)
              else (case setAttribute attr n d of
                      Inl err \<Rightarrow> (d, Some err)
                    | Inr d1 \<Rightarrow> (d1, None))))
      else (d, None))"

fun forEach ::
  "(string \<Rightarrow> element \<Rightarrow> element \<times> js_error option) \<Rightarrow> string list \<Rightarrow> element
     \<Rightarrow> element \<times> js_error option" where
  "forEach f [] d = (d, None)"
| "forEach f (a # as) d =
     (case f a d of
        (d1, Some err) \<Rightarrow> (d1, Some err)
      | (d1, None) \<Rightarrow> forEach f as d1)"

text \<open>
  \<^verbatim>\<open>applyTheme(theme, doc)\<close>. \<open>doc\<close> is the root element of the document passed in, if
  any; it is returned as the call left it, and the root element of the current document
  is then left alone. The style element of \<^verbatim>\<open>disableAnimation\<close> always goes to the
  current document. The third component is the exception that left \<open>applyTheme\<close>, if
  any: nothing in it catches one, so the color scheme is not written and \<open>enable\<close> is not
  called after a DOM call has thrown.
\<close>

definition applyTheme ::
  "config \<Rightarrow> string option \<Rightarrow> element option \<Rightarrow> browser
     \<Rightarrow> browser \<times> element option \<times> js_error option" where
  "applyTheme cfg theme doc w =
     (case theme of
        None \<Rightarrow> (w, doc, None)
      | Some t \<Rightarrow>
          (if t = [] then (w, doc, None)
           else
             (let resolved = resolved_of cfg t w;
                  name = name_of cfg resolved;
                  (enable, w1) =
                    (if disableTransitionOnChange cfg
                     then (let (f, w') = disableAnimation (nonce cfg) w in (Some f, w'))
                     else (None, w));
                  d = (case doc of Some nd \<Rightarrow> nd | None \<Rightarrow> documentElement w1);
                  (d1, thrown) =
                    (case attribute cfg of
                       Many as \<Rightarrow> forEach (handleAttribute (attrs cfg) name) as d
                     | Single a \<Rightarrow> handleAttribute (attrs cfg) name a d)
              in (case thrown of
                    Some err \<Rightarrow>
                      (case doc of
                         Some nd \<Rightarrow> (w1, Some d1, Some err)
                       | None \<Rightarrow> (w1\<lparr>documentElement := d1\<rparr>, None, Some err))
                  | None \<Rightarrow>
                      (let d2 = (if enableColorScheme cfg
                                 then d1\<lparr>colorScheme := colorScheme_of cfg resolved\<rparr>
                                 else d1);
                           w2 = (case enable of Some f \<Rightarrow> enable_fn f w1 | None \<Rightarrow> w1)
                       in (case doc of
                             Some nd \<Rightarrow> (w2, Some d2, None)
                           | None \<Rightarrow> (w2\<lparr>documentElement := d2\<rparr>, None, None)))))))"

subsection \<open>Event handlers\<close>

text \<open>
  A handler returns the browser state it leaves and the exception that left it, if any.
  \<open>outcome\<close> drops the passed document from the result of an \<open>applyTheme\<close> called
  without one.
\<close>

record storage_event =
  key :: "string option"
  newValue :: "string option"

record set_theme_event =
  detail :: "string option"

definition outcome :: "browser \<times> element option \<times> js_error option \<Rightarrow> browser \<times> js_error option" where
  "outcome r = (fst r, snd (snd r))"

definition handleStorage :: "config \<Rightarrow> storage_event \<Rightarrow> browser \<Rightarrow> browser \<times> js_error option" where
  "handleStorage cfg e w =
     (if key e \<noteq> Some (storageKey cfg) then (w, None)
      else outcome (applyTheme cfg
                      (if truthy (newValue e) then newValue e else Some (defaultTheme cfg)) None w))"

definition handleSetTheme :: "config \<Rightarrow> set_theme_event \<Rightarrow> browser \<Rightarrow> browser \<times> js_error option" where
  "handleSetTheme cfg e w =
     (case (if truthy (detail e) then detail e else None) of
        Some t \<Rightarrow>
          (let w1 = saveToLS (storageKey cfg) t w
           in outcome (applyTheme cfg (Some t) None w1))
      | None \<Rightarrow>
          (let newTheme = getResolveTheme cfg w;
               w1 = saveToLS (storageKey cfg) newTheme w
           in outcome (applyTheme cfg (Some newTheme) None w1)))"

definition refreshTheme :: "config \<Rightarrow> browser \<Rightarrow> browser \<times> js_error option" where
  "refreshTheme cfg w = outcome (applyTheme cfg (Some (getResolveTheme cfg w)) None w)"

definition handleBeforeSwap ::
  "config \<Rightarrow> element \<Rightarrow> browser \<Rightarrow> browser \<times> element option \<times> js_error option" where
  "handleBeforeSwap cfg newDocument w =
     applyTheme cfg (Some (getResolveTheme cfg w)) (Some newDocument) w"

subsection \<open>The exported helpers\<close>

text \<open>
  \<^verbatim>\<open>getTheme\<close> of \<^verbatim>\<open>utils.ts\<close> computes \<open>theme\<close> and then falls off the end of its
  body; the read is not inside a \<^verbatim>\<open>try\<close>. \<^verbatim>\<open>getTheme\<close> of the frontmatter evaluates
  an expression statement on \<^verbatim>\<open>document\<close>; the frontmatter runs on the server, where
  there is no \<^verbatim>\<open>document\<close> (the argument \<open>None\<close>) and the reference throws.
  \<^verbatim>\<open>setTheme\<close> dispatches the \<^verbatim>\<open>set-theme\<close> event, which runs \<open>handleSetTheme\<close>;
  \<^verbatim>\<open>dispatchEvent\<close> reports an exception of a listener and does not rethrow it.
\<close>

definition utils_getTheme :: "string option \<Rightarrow> browser \<Rightarrow> js_error + string option" where
  "utils_getTheme fallback w =
     (case ls_getItem ''theme'' w of
        Inl e \<Rightarrow> Inl e
      | Inr v \<Rightarrow>
          (let theme = (if truthy v then v else if truthy fallback then fallback else Some ''light'')
           in Inr None))"

definition frontmatter_getTheme :: "browser option \<Rightarrow> js_error + string option" where
  "frontmatter_getTheme document =
     (case document of
        None \<Rightarrow> Inl ReferenceError
      | Some w \<Rightarrow> (let v = attributes (documentElement w) ''data-theme'' in Inr None))"

definition setTheme :: "config \<Rightarrow> string option \<Rightarrow> browser \<Rightarrow> browser" where
  "setTheme cfg newTheme w = fst (handleSetTheme cfg \<lparr>detail = newTheme\<rparr> w)"

subsection \<open>Concrete inputs\<close>

text \<open>
  The configuration the frontmatter builds when no prop is passed, an element with no
  class, attribute or inline style, and a browser with empty, working storage whose
  system preference is light.
\<close>

definition default_config :: config where
  "default_config =
     \<lparr>forcedTheme = None, disableTransitionOnChange = False, enableSystem = True,
      enableColorScheme = True, storageKey = ''theme'', themes = [''light'', ''dark''],
      defaultTheme = ''system'', attribute = Single ''data-theme'', value_obj = None,
      nonce = None\<rparr>"

definition blank_element :: element where
  "blank_element = \<lparr>classList = [], attributes = (\<lambda>a. None), colorScheme = None\<rparr>"

definition fresh_browser :: browser where
  "fresh_browser =
     \<lparr>ls_available = True, ls_full = False, ls_items = (\<lambda>k. None), prefersDark = False,
      documentElement = blank_element, head = [], timers = [], next_node = 0\<rparr>"

subsection \<open>Auxiliary functions of the proofs\<close>

text \<open>
  \<open>step\<close> is the element \<open>handleAttribute\<close> leaves and \<open>attr_error\<close> the exception it
  throws, which does not depend on the element. \<open>executed\<close> is the part of the attribute
  array that \<open>forEach\<close> gets to and \<open>first_error\<close> the exception that stops it.
  \<open>class_step\<close> and \<open>attr_step\<close> are what \<open>step\<close> does to the class list and to the
  attributes. \<open>root_after\<close> is the element \<open>applyTheme\<close> leaves and \<open>apply_error\<close> the
  exception that leaves it; \<open>chosen_theme\<close> is the theme that \<open>handleSetTheme\<close> saves
  and applies.
\<close>

definition step :: "string list \<Rightarrow> string option \<Rightarrow> string \<Rightarrow> element \<Rightarrow> element" where
  "step as name a d = fst (handleAttribute as name a d)"

definition attr_error :: "string list \<Rightarrow> string option \<Rightarrow> string \<Rightarrow> js_error option" where
  "attr_error as name a = snd (handleAttribute as name a blank_element)"

fun executed :: "string list \<Rightarrow> string option \<Rightarrow> string list \<Rightarrow> string list" where
  "executed as name [] = []"
| "executed as name (a # xs) =
     (if attr_error as name a = None then a # executed as name xs else [a])"

fun first_error :: "string list \<Rightarrow> string option \<Rightarrow> string list \<Rightarrow> js_error option" where
  "first_error as name [] = None"
| "first_error as name (a # xs) =
     (case attr_error as name a of Some e \<Rightarrow> Some e | None \<Rightarrow> first_error as name xs)"

definition attr_list :: "attribute_spec \<Rightarrow> string list" where
  "attr_list sp = (case sp of Single a \<Rightarrow> [a] | Many as \<Rightarrow> as)"

definition apply_error :: "config \<Rightarrow> string \<Rightarrow> js_error option" where
  "apply_error cfg resolved =
     first_error (attrs cfg) (name_of cfg resolved) (attr_list (attribute cfg))"

definition root_after :: "config \<Rightarrow> string \<Rightarrow> element \<Rightarrow> element" where
  "root_after cfg resolved d =
     (let name = name_of cfg resolved;
          d1 = fold (step (attrs cfg) name)
                 (executed (attrs cfg) name (attr_list (attribute cfg))) d
      in if apply_error cfg resolved = None \<and> enableColorScheme cfg
         then d1\<lparr>colorScheme := colorScheme_of cfg resolved\<rparr> else d1)"

definition class_step :: "string list \<Rightarrow> string option \<Rightarrow> string list \<Rightarrow> string list" where
  "class_step as name cl =
     (case classList_remove as cl of
        Inl err \<Rightarrow> cl
      | Inr cl1 \<Rightarrow>
          (case name of
             None \<Rightarrow> cl1
           | Some n \<Rightarrow>
               (if n = [] then cl1
                else (case classList_add n cl1 of Inl err \<Rightarrow> cl1 | Inr cl2 \<Rightarrow> cl2))))"

definition attr_step ::
  "string option \<Rightarrow> string \<Rightarrow> (string \<Rightarrow> string option) \<Rightarrow> (string \<Rightarrow> string option)" where
  "attr_step name a m =
     (if truthy name
      then (if valid_attribute_name a then m(ascii_lower a := name) else m)
      else m(ascii_lower a := None))"

definition chosen_theme :: "config \<Rightarrow> set_theme_event \<Rightarrow> browser \<Rightarrow> string" where
  "chosen_theme cfg e w =
     (case detail e of
        None \<Rightarrow> getResolveTheme cfg w
      | Some t \<Rightarrow> (if t = [] then getResolveTheme cfg w else t))"

lemmas eval_defs =
  default_config_def blank_element_def fresh_browser_def
  refreshTheme_def handleStorage_def handleSetTheme_def setTheme_def outcome_def
  applyTheme_def handleAttribute_def resolved_of_def name_of_def colorScheme_of_def
  colorSchemes_def attrs_def startsWith_def truthy_def
  getResolveTheme_def getTheme_def getSystemTheme_def saveToLS_def
  ls_getItem_def ls_setItem_def classList_add_def classList_remove_def
  validate_token_def ascii_whitespace_def valid_attribute_name_def
  ascii_lower_def ascii_lower_char_def get_property_def object_prototype_members_def
  native_source_def
  setAttribute_def removeAttribute_def disableAnimation_def enable_fn_def
  utils_getTheme_def frontmatter_getTheme_def Let_def

section \<open>Properties\<close>

subsection \<open>The attribute writes\<close>

lemma handleAttribute_error_indep:
  "snd (handleAttribute as name a d) = attr_error as name a"
  by (auto simp: handleAttribute_def attr_error_def classList_remove_def classList_add_def
      setAttribute_def Let_def split: option.splits sum.splits)

lemma forEach_handleAttribute:
  "forEach (handleAttribute as name) xs d =
     (fold (step as name) (executed as name xs) d, first_error as name xs)"
proof (induction xs arbitrary: d)
  case Nil
  then show ?case by simp
next
  case (Cons a xs)
  have e: "snd (handleAttribute as name a d) = attr_error as name a"
    by (rule handleAttribute_error_indep)
  show ?case
  proof (cases "attr_error as name a")
    case None
    with e have "handleAttribute as name a d = (step as name a d, None)"
      by (simp add: step_def prod_eq_iff)
    with None Cons show ?thesis by simp
  next
    case (Some err)
    with e have "handleAttribute as name a d = (step as name a d, Some err)"
      by (simp add: step_def prod_eq_iff)
    with Some show ?thesis by simp
  qed
qed

lemma handleAttribute_as_forEach:
  "handleAttribute as name a d = forEach (handleAttribute as name) [a] d"
  by (cases "handleAttribute as name a d") (auto split: option.splits)

lemma attribute_handling:
  "(case attribute cfg of
      Many as \<Rightarrow> forEach (handleAttribute (attrs cfg) name) as d
    | Single a \<Rightarrow> handleAttribute (attrs cfg) name a d) =
   (fold (step (attrs cfg) name) (executed (attrs cfg) name (attr_list (attribute cfg))) d,
    first_error (attrs cfg) name (attr_list (attribute cfg)))"
proof (cases "attribute cfg")
  case (Single a)
  have "handleAttribute (attrs cfg) name a d =
        (fold (step (attrs cfg) name) (executed (attrs cfg) name [a]) d,
         first_error (attrs cfg) name [a])"
    by (simp only: handleAttribute_as_forEach [of "attrs cfg" name a d] forEach_handleAttribute)
  with Single show ?thesis by (simp add: attr_list_def)
next
  case (Many xs)
  then show ?thesis by (simp add: attr_list_def forEach_handleAttribute)
qed

lemma class_step_idem: "class_step as name (class_step as name cl) = class_step as name cl"
  by (auto simp: class_step_def classList_remove_def classList_add_def
      split: option.splits sum.splits)

lemma step_classList:
  "classList (step as name a d) =
     (if a = ''class'' then class_step as name (classList d) else classList d)"
  by (auto simp: step_def handleAttribute_def class_step_def setAttribute_def
      removeAttribute_def Let_def split: option.splits sum.splits)

lemma step_attributes:
  "attributes (step as name a d) =
     (if a \<noteq> ''class'' \<and> startsWith a ''data-'' then attr_step name a (attributes d)
      else attributes d)"
  by (auto simp: step_def handleAttribute_def attr_step_def setAttribute_def
      removeAttribute_def Let_def truthy_def split: option.splits sum.splits)

lemma step_colorScheme: "colorScheme (step as name a d) = colorScheme d"
  by (auto simp: step_def handleAttribute_def setAttribute_def removeAttribute_def Let_def
      split: option.splits sum.splits)

lemma attr_step_idem: "attr_step name a (attr_step name a m) = attr_step name a m"
  by (simp add: attr_step_def)

lemma attr_step_commute:
  "attr_step name a (attr_step name b m) = attr_step name b (attr_step name a m)"
  by (auto simp: attr_step_def fun_eq_iff)

lemma step_idem: "step as name a (step as name a d) = step as name a d"
  by (rule element.equality)
     (simp_all add: step_classList step_attributes step_colorScheme class_step_idem
        attr_step_idem)

lemma step_commute:
  "step as name a (step as name b d) = step as name b (step as name a d)"
  by (rule element.equality)
     (simp_all add: step_classList step_attributes step_colorScheme attr_step_commute)

lemma step_colorScheme_update:
  "step as name a (d\<lparr>colorScheme := c\<rparr>) = (step as name a d)\<lparr>colorScheme := c\<rparr>"
  by (rule element.equality)
     (simp_all add: step_classList step_attributes step_colorScheme)

lemma fold_step_colorScheme_update:
  "fold (step as name) xs (d\<lparr>colorScheme := c\<rparr>) = (fold (step as name) xs d)\<lparr>colorScheme := c\<rparr>"
  by (induction xs arbitrary: d) (simp_all add: step_colorScheme_update)

lemma fold_step_colorScheme: "colorScheme (fold (step as name) xs d) = colorScheme d"
  by (induction xs arbitrary: d) (simp_all add: step_colorScheme)

lemma fold_commute_idem:
  assumes comm: "\<And>a b d. f a (f b d) = f b (f a d)"
    and idem: "\<And>a d. f a (f a d) = f a d"
  shows "fold f xs (fold f xs d) = fold f xs d"
proof -
  have push: "fold f ys (f a d) = f a (fold f ys d)" for ys a d
  proof (induction ys arbitrary: d)
    case Nil
    then show ?case by simp
  next
    case (Cons y ys)
    have "fold f (y # ys) (f a d) = fold f ys (f a (f y d))"
      by (simp add: comm [of y a])
    also have "\<dots> = f a (fold f ys (f y d))" by (rule Cons.IH)
    finally show ?case by simp
  qed
  show ?thesis
  proof (induction xs arbitrary: d)
    case Nil
    then show ?case by simp
  next
    case (Cons x xs)
    have "fold f (x # xs) (fold f (x # xs) d) = fold f xs (f x (fold f xs (f x d)))"
      by simp
    also have "\<dots> = fold f xs (f x (f x (fold f xs d)))" by (simp add: push)
    also have "\<dots> = fold f xs (f x (fold f xs d))" by (simp add: idem)
    also have "\<dots> = f x (fold f xs (fold f xs d))" by (simp add: push)
    also have "\<dots> = f x (fold f xs d)" by (simp add: Cons.IH)
    also have "\<dots> = fold f (x # xs) d" by (simp add: push)
    finally show ?case .
  qed
qed

lemma fold_step_idem:
  "fold (step as name) xs (fold (step as name) xs d) = fold (step as name) xs d"
  by (rule fold_commute_idem) (rule step_commute, rule step_idem)

lemma attr_error_valid:
  assumes "validate_tokens as = None"
    and "case name of Some n \<Rightarrow> n = [] \<or> validate_token n = None | None \<Rightarrow> True"
    and "valid_attribute_name a"
  shows "attr_error as name a = None"
  using assms
  by (auto simp: attr_error_def handleAttribute_def classList_remove_def classList_add_def
      setAttribute_def Let_def split: option.splits sum.splits)

lemma apply_error_valid:
  assumes "validate_tokens (attrs cfg) = None"
    and "case name_of cfg r of Some n \<Rightarrow> n = [] \<or> validate_token n = None | None \<Rightarrow> True"
    and "list_all valid_attribute_name (attr_list (attribute cfg))"
  shows "apply_error cfg r = None"
proof -
  have "list_all valid_attribute_name xs \<Longrightarrow>
        first_error (attrs cfg) (name_of cfg r) xs = None" for xs
    using assms(1,2) by (induction xs) (simp_all add: attr_error_valid)
  with assms(3) show ?thesis by (simp add: apply_error_def)
qed

lemma apply_error_dom: "apply_error cfg r \<noteq> Some SecurityError \<and> apply_error cfg r \<noteq> Some QuotaExceededError"
proof -
  have a: "attr_error as name a \<noteq> Some SecurityError \<and> attr_error as name a \<noteq> Some QuotaExceededError"
    for as name a
  proof -
    have v: "validate_token t \<noteq> Some SecurityError \<and> validate_token t \<noteq> Some QuotaExceededError" for t
      by (simp add: validate_token_def)
    have vs: "validate_tokens ts \<noteq> Some SecurityError \<and> validate_tokens ts \<noteq> Some QuotaExceededError" for ts
      using v by (induction ts) (auto split: option.splits)
    show ?thesis
      using v vs [of as]
      by (auto simp: attr_error_def handleAttribute_def classList_remove_def classList_add_def
          setAttribute_def Let_def split: option.splits sum.splits)
  qed
  have "first_error as name xs \<noteq> Some SecurityError \<and> first_error as name xs \<noteq> Some QuotaExceededError"
    for as name xs
    using a by (induction xs) (auto split: option.splits)
  then show ?thesis by (simp add: apply_error_def)
qed

subsection \<open>What applyTheme leaves\<close>

lemma root_after_idem: "root_after cfg r (root_after cfg r d) = root_after cfg r d"
  by (simp add: root_after_def Let_def fold_step_idem fold_step_colorScheme_update)

lemma root_after_colorScheme:
  "colorScheme (root_after cfg r d) =
     (if apply_error cfg r = None \<and> enableColorScheme cfg then colorScheme_of cfg r
      else colorScheme d)"
  by (simp add: root_after_def Let_def fold_step_colorScheme)

lemma applyTheme_falsy: "\<not> truthy theme \<Longrightarrow> applyTheme cfg theme doc w = (w, doc, None)"
  by (auto simp: applyTheme_def truthy_def split: option.splits)

lemma applyTheme_documentElement:
  "t \<noteq> [] \<Longrightarrow>
   documentElement (fst (applyTheme cfg (Some t) None w)) =
     root_after cfg (resolved_of cfg t w) (documentElement w)"
  by (simp add: applyTheme_def attribute_handling root_after_def apply_error_def Let_def
      enable_fn_def disableAnimation_def split: prod.splits option.splits)

lemma applyTheme_new_document:
  "t \<noteq> [] \<Longrightarrow>
   fst (snd (applyTheme cfg (Some t) (Some nd) w)) =
     Some (root_after cfg (resolved_of cfg t w) nd)"
  by (simp add: applyTheme_def attribute_handling root_after_def apply_error_def Let_def
      enable_fn_def disableAnimation_def split: prod.splits option.splits)

lemma applyTheme_error:
  "t \<noteq> [] \<Longrightarrow>
   snd (snd (applyTheme cfg (Some t) doc w)) = apply_error cfg (resolved_of cfg t w)"
  by (simp add: applyTheme_def attribute_handling apply_error_def Let_def
      split: prod.splits option.splits)

lemma applyTheme_storage:
  "ls_items (fst (applyTheme cfg theme doc w)) = ls_items w"
  "ls_available (fst (applyTheme cfg theme doc w)) = ls_available w"
  "ls_full (fst (applyTheme cfg theme doc w)) = ls_full w"
  "prefersDark (fst (applyTheme cfg theme doc w)) = prefersDark w"
  by (simp_all add: applyTheme_def attribute_handling Let_def enable_fn_def disableAnimation_def
      split: prod.splits option.splits)

lemma resolved_of_cong:
  "prefersDark w' = prefersDark w \<Longrightarrow> resolved_of cfg t w' = resolved_of cfg t w"
  by (simp add: resolved_of_def getSystemTheme_def Let_def)

subsection \<open>Storage and resolution\<close>

lemma saveToLS_items:
  "ls_items (saveToLS k v w) =
     (if ls_available w \<and> \<not> ls_full w then (ls_items w)(k \<mapsto> v) else ls_items w)"
  by (simp add: saveToLS_def ls_setItem_def)

lemma saveToLS_fields:
  "ls_available (saveToLS k v w) = ls_available w"
  "ls_full (saveToLS k v w) = ls_full w"
  "prefersDark (saveToLS k v w) = prefersDark w"
  "documentElement (saveToLS k v w) = documentElement w"
  by (simp_all add: saveToLS_def ls_setItem_def)

lemma getResolveTheme_cong:
  "ls_available w' = ls_available w \<Longrightarrow> ls_items w' = ls_items w \<Longrightarrow>
   prefersDark w' = prefersDark w \<Longrightarrow> getResolveTheme cfg w' = getResolveTheme cfg w"
  by (simp add: getResolveTheme_def getTheme_def ls_getItem_def getSystemTheme_def Let_def)

lemma getResolveTheme_not_system: "getResolveTheme cfg w \<noteq> ''system''"
  by (simp add: getResolveTheme_def getSystemTheme_def Let_def)

lemma getResolveTheme_system:
  "getTheme (storageKey cfg) (defaultTheme cfg) w = ''system'' \<Longrightarrow>
   getResolveTheme cfg w = (if prefersDark w then ''dark'' else ''light'')"
  by (simp add: getResolveTheme_def getSystemTheme_def Let_def)

lemma getTheme_empty: "getTheme k fb w = [] \<Longrightarrow> fb = []"
  by (auto simp: getTheme_def Let_def truthy_def ls_getItem_def
      split: option.splits if_splits sum.splits)

lemma getResolveTheme_after_save:
  "getResolveTheme cfg (saveToLS (storageKey cfg) (getResolveTheme cfg w) w) = getResolveTheme cfg w"
proof (cases "ls_available w \<and> \<not> ls_full w")
  case False
  then have "saveToLS (storageKey cfg) (getResolveTheme cfg w) w = w"
    by (auto simp: saveToLS_def ls_setItem_def)
  then show ?thesis by simp
next
  case True
  let ?r = "getResolveTheme cfg w"
  let ?w1 = "saveToLS (storageKey cfg) ?r w"
  have items: "ls_items ?w1 (storageKey cfg) = Some ?r" and av: "ls_available ?w1"
    using True by (simp_all add: saveToLS_items saveToLS_fields)
  show ?thesis
  proof (cases "?r = []")
    case True
    then have "getTheme (storageKey cfg) (defaultTheme cfg) w = []"
      by (auto simp: getResolveTheme_def Let_def getSystemTheme_def split: if_splits)
    then have "defaultTheme cfg = []" by (rule getTheme_empty)
    then have "getTheme (storageKey cfg) (defaultTheme cfg) ?w1 = []"
      using items av True by (simp add: getTheme_def ls_getItem_def truthy_def)
    then show ?thesis using True by (simp add: getResolveTheme_def)
  next
    case False
    then have "getTheme (storageKey cfg) (defaultTheme cfg) ?w1 = ?r"
      using items av by (simp add: getTheme_def ls_getItem_def truthy_def)
    then show ?thesis
      using getResolveTheme_not_system [of cfg w]
      by (simp add: getResolveTheme_def [of cfg ?w1])
  qed
qed

subsection \<open>handleSetTheme\<close>

lemma handleSetTheme_eq:
  "handleSetTheme cfg e w =
     outcome (applyTheme cfg (Some (chosen_theme cfg e w)) None
                (saveToLS (storageKey cfg) (chosen_theme cfg e w) w))"
  by (simp add: handleSetTheme_def chosen_theme_def truthy_def Let_def split: option.splits)

lemma handleSetTheme_items:
  "ls_items (fst (handleSetTheme cfg e w)) =
     ls_items (saveToLS (storageKey cfg) (chosen_theme cfg e w) w)"
  by (simp add: handleSetTheme_eq outcome_def applyTheme_storage)

lemma handleSetTheme_fields:
  "ls_available (fst (handleSetTheme cfg e w)) = ls_available w"
  "ls_full (fst (handleSetTheme cfg e w)) = ls_full w"
  "prefersDark (fst (handleSetTheme cfg e w)) = prefersDark w"
  by (simp_all add: handleSetTheme_eq outcome_def applyTheme_storage saveToLS_fields)

lemma handleSetTheme_documentElement:
  "documentElement (fst (handleSetTheme cfg e w)) =
     (if chosen_theme cfg e w = [] then documentElement w
      else root_after cfg (resolved_of cfg (chosen_theme cfg e w) w) (documentElement w))"
proof (cases "chosen_theme cfg e w = []")
  case True
  then show ?thesis
    by (simp add: handleSetTheme_eq outcome_def applyTheme_falsy truthy_def saveToLS_fields)
next
  case False
  then show ?thesis
    by (simp add: handleSetTheme_eq outcome_def applyTheme_documentElement saveToLS_fields
        resolved_of_cong [of "saveToLS (storageKey cfg) (chosen_theme cfg e w) w" w])
qed

lemma handleSetTheme_error:
  "snd (handleSetTheme cfg e w) =
     (if chosen_theme cfg e w = [] then None
      else apply_error cfg (resolved_of cfg (chosen_theme cfg e w) w))"
proof (cases "chosen_theme cfg e w = []")
  case True
  then show ?thesis
    by (simp add: handleSetTheme_eq outcome_def applyTheme_falsy truthy_def)
next
  case False
  then show ?thesis
    by (simp add: handleSetTheme_eq outcome_def applyTheme_error saveToLS_fields
        resolved_of_cong [of "saveToLS (storageKey cfg) (chosen_theme cfg e w) w" w])
qed

lemma chosen_theme_again:
  "chosen_theme cfg e (fst (handleSetTheme cfg e w)) = chosen_theme cfg e w"
proof -
  have "getResolveTheme cfg (fst (handleSetTheme cfg e w)) =
        getResolveTheme cfg (saveToLS (storageKey cfg) (chosen_theme cfg e w) w)"
    by (rule getResolveTheme_cong)
       (simp_all add: handleSetTheme_items handleSetTheme_fields saveToLS_fields)
  then show ?thesis
    by (auto simp: chosen_theme_def getResolveTheme_after_save split: option.splits)
qed

subsection \<open>The forced theme and the exported helpers\<close>

lemma applyTheme_forcedTheme_any:
  "applyTheme (cfg\<lparr>forcedTheme := f\<rparr>) th doc w = applyTheme cfg th doc w"
proof -
  have eqs:
    "attrs (cfg\<lparr>forcedTheme := f\<rparr>) = attrs cfg"
    "resolved_of (cfg\<lparr>forcedTheme := f\<rparr>) = resolved_of cfg"
    "name_of (cfg\<lparr>forcedTheme := f\<rparr>) = name_of cfg"
    "colorScheme_of (cfg\<lparr>forcedTheme := f\<rparr>) = colorScheme_of cfg"
    "disableTransitionOnChange (cfg\<lparr>forcedTheme := f\<rparr>) = disableTransitionOnChange cfg"
    "nonce (cfg\<lparr>forcedTheme := f\<rparr>) = nonce cfg"
    "attribute (cfg\<lparr>forcedTheme := f\<rparr>) = attribute cfg"
    "enableColorScheme (cfg\<lparr>forcedTheme := f\<rparr>) = enableColorScheme cfg"
    by (simp_all add: attrs_def resolved_of_def name_of_def colorScheme_of_def fun_eq_iff
        split: option.splits)
  show ?thesis
    unfolding applyTheme_def eqs by (rule refl)
qed

lemma refreshTheme_forcedTheme_any:
  "refreshTheme (cfg\<lparr>forcedTheme := f\<rparr>) w = refreshTheme cfg w"
  by (simp add: refreshTheme_def getResolveTheme_def applyTheme_forcedTheme_any)

lemma getTheme_helpers_return:
  "frontmatter_getTheme (Some w) = Inr None \<and>
   (ls_available w \<longrightarrow> utils_getTheme fallback w = Inr None) \<and>
   frontmatter_getTheme document \<noteq> Inr (Some s) \<and>
   utils_getTheme fallback w \<noteq> Inr (Some s)"
  by (simp add: frontmatter_getTheme_def utils_getTheme_def ls_getItem_def Let_def
      split: option.splits)

section \<open>The claims\<close>

subsection \<open>C1: the forced theme on page load\<close>

text \<open>
  C1 says that whenever a forced theme is configured, the theme applied to the root element
  on page load is the forced one, before the stored and the system preference. The script
  receives \<open>forcedTheme\<close> and never reads it (\<open>refreshTheme_forcedTheme_any\<close>). At this input
  the forced theme is dark, nothing is stored and the system prefers light: page load
  writes light to \<^verbatim>\<open>data-theme\<close> and to the color scheme.
\<close>

theorem refreshTheme_forcedTheme_unused:
  "forcedTheme (default_config\<lparr>forcedTheme := Some ''dark''\<rparr>) = Some ''dark'' \<and>
   attributes (documentElement
      (fst (refreshTheme (default_config\<lparr>forcedTheme := Some ''dark''\<rparr>) fresh_browser)))
     ''data-theme'' = Some ''light'' \<and>
   colorScheme (documentElement
      (fst (refreshTheme (default_config\<lparr>forcedTheme := Some ''dark''\<rparr>) fresh_browser)))
     = Some ''light''"
  by (simp add: eval_defs)

subsection \<open>C2: resolution of a theme other than system\<close>

text \<open>
  C2, as the code has it: when storage can be read and holds, under the storage key, a
  non-empty value other than \<^verbatim>\<open>system\<close>, \<open>getResolveTheme\<close> returns that value; when
  storage cannot be read, holds nothing under the key or holds the empty string there, and
  the default theme is not \<^verbatim>\<open>system\<close>, it returns the default theme.
\<close>

theorem getResolveTheme_non_system:
  "(ls_available w \<and> ls_items w (storageKey cfg) = Some v \<and> v \<noteq> [] \<and> v \<noteq> ''system''
      \<longrightarrow> getResolveTheme cfg w = v) \<and>
   ((\<not> ls_available w \<or> ls_items w (storageKey cfg) = None \<or>
     ls_items w (storageKey cfg) = Some []) \<and> defaultTheme cfg \<noteq> ''system''
      \<longrightarrow> getResolveTheme cfg w = defaultTheme cfg)"
  by (auto simp: getResolveTheme_def getTheme_def ls_getItem_def truthy_def Let_def)

text \<open>Both cases occur: dark is stored, or nothing is, with light as the default.\<close>

theorem getResolveTheme_non_system_witness:
  "getResolveTheme (default_config\<lparr>defaultTheme := ''light''\<rparr>)
     (fresh_browser\<lparr>ls_items := [''theme'' \<mapsto> ''dark'']\<rparr>) = ''dark'' \<and>
   getResolveTheme (default_config\<lparr>defaultTheme := ''light''\<rparr>) fresh_browser = ''light''"
  using getResolveTheme_non_system
          [of "fresh_browser\<lparr>ls_items := [''theme'' \<mapsto> ''dark'']\<rparr>"
              "default_config\<lparr>defaultTheme := ''light''\<rparr>" "''dark''"]
        getResolveTheme_non_system
          [of fresh_browser "default_config\<lparr>defaultTheme := ''light''\<rparr>" "''dark''"]
  by (simp add: default_config_def fresh_browser_def)

text \<open>
  As stated, C2 fails where the persisted value is the empty string: the value is present
  and is not \<^verbatim>\<open>system\<close>, yet \<^verbatim>\<open>getItem(key) || undefined\<close> discards it and the default
  theme is returned.
\<close>

theorem getResolveTheme_empty_string_counterexample:
  "ls_items (fresh_browser\<lparr>ls_items := [''theme'' \<mapsto> []]\<rparr>)
     (storageKey (default_config\<lparr>defaultTheme := ''light''\<rparr>)) = Some [] \<and>
   [] \<noteq> ''system'' \<and>
   getResolveTheme (default_config\<lparr>defaultTheme := ''light''\<rparr>)
     (fresh_browser\<lparr>ls_items := [''theme'' \<mapsto> []]\<rparr>) \<noteq> [] \<and>
   getResolveTheme (default_config\<lparr>defaultTheme := ''light''\<rparr>)
     (fresh_browser\<lparr>ls_items := [''theme'' \<mapsto> []]\<rparr>) = ''light''"
  by (simp add: eval_defs)

subsection \<open>C3: when the system theme is substituted\<close>

text \<open>
  C3 says that \<open>getResolveTheme\<close> replaces \<^verbatim>\<open>system\<close> by the media-query result exactly
  when system detection is enabled. \<open>getResolveTheme\<close> does not test \<open>enableSystem\<close>, as
  \<open>applyTheme\<close> does: with detection disabled, \<^verbatim>\<open>system\<close> stored and a dark system
  preference it returns dark, where \<open>applyTheme\<close> on the same input keeps \<^verbatim>\<open>system\<close>.
\<close>

theorem getResolveTheme_system_detection_disabled:
  "\<not> enableSystem (default_config\<lparr>enableSystem := False, defaultTheme := ''light''\<rparr>) \<and>
   getResolveTheme (default_config\<lparr>enableSystem := False, defaultTheme := ''light''\<rparr>)
     (fresh_browser\<lparr>ls_items := [''theme'' \<mapsto> ''system''], prefersDark := True\<rparr>) = ''dark'' \<and>
   attributes (documentElement (fst
     (applyTheme (default_config\<lparr>enableSystem := False, defaultTheme := ''light''\<rparr>)
        (Some ''system'') None
        (fresh_browser\<lparr>ls_items := [''theme'' \<mapsto> ''system''], prefersDark := True\<rparr>))))
     ''data-theme'' = Some ''system''"
  by (simp add: eval_defs)

subsection \<open>C4: the class list after applyTheme\<close>

text \<open>
  C4 says that, for the \<^verbatim>\<open>class\<close> attribute, \<open>applyTheme\<close> first removes every class a
  theme could have written (the mapped values when a value object is configured) and then
  adds the mapped value, so that the class read afterwards is the mapped value of the
  applied theme. With a value object the script removes the keys of the object, the theme
  names, not its values: applying light and then dark to a fresh page leaves both mapped
  classes on the root element.
\<close>

theorem applyTheme_class_value_map_accumulates:
  "attrs (default_config\<lparr>attribute := Single ''class'',
            value_obj := Some [(''light'', ''theme-light''), (''dark'', ''theme-dark'')]\<rparr>)
     = [''light'', ''dark''] \<and>
   classList (documentElement (fst
     (applyTheme
        (default_config\<lparr>attribute := Single ''class'',
           value_obj := Some [(''light'', ''theme-light''), (''dark'', ''theme-dark'')]\<rparr>)
        (Some ''dark'') None
        (fst (applyTheme
           (default_config\<lparr>attribute := Single ''class'',
              value_obj := Some [(''light'', ''theme-light''), (''dark'', ''theme-dark'')]\<rparr>)
           (Some ''light'') None fresh_browser)))))
   = [''theme-light'', ''theme-dark'']"
  by (simp add: eval_defs)

subsection \<open>C5: setTheme with a theme\<close>

text \<open>
  C5: when the \<^verbatim>\<open>set-theme\<close> event carries a theme (a non-empty string, the test
  \<^verbatim>\<open>if (e.detail)\<close>), \<open>handleSetTheme\<close> first writes it under the storage key and then
  applies it to the state after the write. When the write throws (storage unavailable or
  full), storage is as it was and the theme is applied to the document all the same: the
  root element and the handler's outcome are those of \<open>applyTheme\<close> in both cases, and no
  exception of the storage ever leaves the handler.
\<close>

theorem handleSetTheme_supplied:
  assumes "detail e = Some t" and "t \<noteq> []"
  shows "(case ls_setItem (storageKey cfg) t w of
            Inr w' \<Rightarrow>
              ls_items w' (storageKey cfg) = Some t \<and>
              fst (handleSetTheme cfg e w) = fst (applyTheme cfg (Some t) None w') \<and>
              snd (handleSetTheme cfg e w) = snd (snd (applyTheme cfg (Some t) None w')) \<and>
              ls_items (fst (handleSetTheme cfg e w)) (storageKey cfg) = Some t
          | Inl err \<Rightarrow>
              fst (handleSetTheme cfg e w) = fst (applyTheme cfg (Some t) None w) \<and>
              snd (handleSetTheme cfg e w) = snd (snd (applyTheme cfg (Some t) None w)) \<and>
              ls_items (fst (handleSetTheme cfg e w)) = ls_items w) \<and>
         documentElement (fst (handleSetTheme cfg e w)) =
           documentElement (fst (applyTheme cfg (Some t) None w)) \<and>
         snd (handleSetTheme cfg e w) = snd (snd (applyTheme cfg (Some t) None w)) \<and>
         snd (handleSetTheme cfg e w) \<noteq> Some SecurityError \<and>
         snd (handleSetTheme cfg e w) \<noteq> Some QuotaExceededError"
proof -
  have c: "chosen_theme cfg e w = t"
    using assms by (simp add: chosen_theme_def)
  have d: "documentElement (fst (handleSetTheme cfg e w)) =
        documentElement (fst (applyTheme cfg (Some t) None w))"
    using assms(2) by (simp add: handleSetTheme_documentElement c applyTheme_documentElement)
  have err: "snd (handleSetTheme cfg e w) = snd (snd (applyTheme cfg (Some t) None w))"
    using assms(2) by (simp add: handleSetTheme_error c applyTheme_error)
  have dom: "snd (handleSetTheme cfg e w) \<noteq> Some SecurityError \<and>
             snd (handleSetTheme cfg e w) \<noteq> Some QuotaExceededError"
    using assms(2) apply_error_dom [of cfg "resolved_of cfg t w"]
    by (simp add: handleSetTheme_error c)
  have "case ls_setItem (storageKey cfg) t w of
            Inr w' \<Rightarrow>
              ls_items w' (storageKey cfg) = Some t \<and>
              fst (handleSetTheme cfg e w) = fst (applyTheme cfg (Some t) None w') \<and>
              snd (handleSetTheme cfg e w) = snd (snd (applyTheme cfg (Some t) None w')) \<and>
              ls_items (fst (handleSetTheme cfg e w)) (storageKey cfg) = Some t
          | Inl err \<Rightarrow>
              fst (handleSetTheme cfg e w) = fst (applyTheme cfg (Some t) None w) \<and>
              snd (handleSetTheme cfg e w) = snd (snd (applyTheme cfg (Some t) None w)) \<and>
              ls_items (fst (handleSetTheme cfg e w)) = ls_items w"
    using assms
    by (auto simp: handleSetTheme_def outcome_def truthy_def saveToLS_def applyTheme_storage
        ls_setItem_def Let_def split: sum.splits)
  with d err dom show ?thesis by simp
qed

text \<open>Dark is set once with working storage and once with full storage.\<close>

theorem handleSetTheme_supplied_witness:
  "ls_items (fst (handleSetTheme default_config \<lparr>detail = Some ''dark''\<rparr> fresh_browser)) ''theme''
     = Some ''dark'' \<and>
   fst (handleSetTheme default_config \<lparr>detail = Some ''dark''\<rparr> (fresh_browser\<lparr>ls_full := True\<rparr>))
     = fst (applyTheme default_config (Some ''dark'') None (fresh_browser\<lparr>ls_full := True\<rparr>)) \<and>
   snd (handleSetTheme default_config \<lparr>detail = Some ''dark''\<rparr> (fresh_browser\<lparr>ls_full := True\<rparr>))
     = None \<and>
   ls_items (fst (handleSetTheme default_config \<lparr>detail = Some ''dark''\<rparr>
     (fresh_browser\<lparr>ls_full := True\<rparr>))) ''theme'' = None \<and>
   attributes (documentElement
     (fst (handleSetTheme default_config \<lparr>detail = Some ''dark''\<rparr>
        (fresh_browser\<lparr>ls_full := True\<rparr>))))
     ''data-theme'' = Some ''dark''"
  using handleSetTheme_supplied
          [of "\<lparr>detail = Some ''dark''\<rparr>" "''dark''" default_config fresh_browser]
        handleSetTheme_supplied
          [of "\<lparr>detail = Some ''dark''\<rparr>" "''dark''" default_config
              "fresh_browser\<lparr>ls_full := True\<rparr>"]
  by (simp add: eval_defs)

subsection \<open>C6: storage events\<close>

text \<open>
  C6, as the code has it: a storage event whose key is not the storage key changes
  nothing; when the key matches and the new value is null or the empty string, the default
  theme is applied; when the key matches and the new value is a non-empty string, that
  value is applied.
\<close>

theorem handleStorage_cases:
  "(key e \<noteq> Some (storageKey cfg) \<longrightarrow> handleStorage cfg e w = (w, None)) \<and>
   (key e = Some (storageKey cfg) \<and> (newValue e = None \<or> newValue e = Some []) \<longrightarrow>
      fst (handleStorage cfg e w) = fst (applyTheme cfg (Some (defaultTheme cfg)) None w) \<and>
      snd (handleStorage cfg e w) = snd (snd (applyTheme cfg (Some (defaultTheme cfg)) None w))) \<and>
   (key e = Some (storageKey cfg) \<and> newValue e = Some v \<and> v \<noteq> [] \<longrightarrow>
      fst (handleStorage cfg e w) = fst (applyTheme cfg (Some v) None w) \<and>
      snd (handleStorage cfg e w) = snd (snd (applyTheme cfg (Some v) None w)))"
  by (auto simp: handleStorage_def outcome_def truthy_def)

text \<open>An event for another key, a deletion of the entry, and a change of the entry to dark.\<close>

theorem handleStorage_cases_witness:
  "handleStorage default_config \<lparr>key = Some ''other'', newValue = Some ''dark''\<rparr> fresh_browser
     = (fresh_browser, None) \<and>
   fst (handleStorage default_config \<lparr>key = Some ''theme'', newValue = None\<rparr> fresh_browser)
     = fst (applyTheme default_config (Some ''system'') None fresh_browser) \<and>
   fst (handleStorage default_config \<lparr>key = Some ''theme'', newValue = Some ''dark''\<rparr> fresh_browser)
     = fst (applyTheme default_config (Some ''dark'') None fresh_browser) \<and>
   attributes (documentElement
     (fst (handleStorage default_config \<lparr>key = Some ''theme'', newValue = Some ''dark''\<rparr>
        fresh_browser)))
     ''data-theme'' = Some ''dark''"
proof -
  have k: "storageKey default_config = ''theme''" and dt: "defaultTheme default_config = ''system''"
    by (simp_all add: default_config_def)
  have 1: "handleStorage default_config \<lparr>key = Some ''other'', newValue = Some ''dark''\<rparr>
             fresh_browser = (fresh_browser, None)"
    using handleStorage_cases
            [of "\<lparr>key = Some ''other'', newValue = Some ''dark''\<rparr>" default_config fresh_browser]
    by (simp add: k)
  have 2: "fst (handleStorage default_config \<lparr>key = Some ''theme'', newValue = None\<rparr>
             fresh_browser) = fst (applyTheme default_config (Some ''system'') None fresh_browser)"
    using handleStorage_cases
            [of "\<lparr>key = Some ''theme'', newValue = None\<rparr>" default_config fresh_browser]
    by (simp add: k dt)
  have 3: "fst (handleStorage default_config \<lparr>key = Some ''theme'', newValue = Some ''dark''\<rparr>
             fresh_browser) = fst (applyTheme default_config (Some ''dark'') None fresh_browser)"
    using handleStorage_cases
            [of "\<lparr>key = Some ''theme'', newValue = Some ''dark''\<rparr>" default_config
                fresh_browser "''dark''"]
    by (simp add: k)
  have 4: "attributes (documentElement
             (fst (applyTheme default_config (Some ''dark'') None fresh_browser)))
             ''data-theme'' = Some ''dark''"
    by (simp add: eval_defs)
  from 1 2 3 4 show ?thesis by (simp only: simp_thms)
qed

text \<open>
  As stated, C6 fails for a matching key whose new value is the empty string: the value is
  not null, yet \<^verbatim>\<open>e.newValue || defaultTheme\<close> applies the default theme, here dark, where
  applying the empty string would have left the document as it was.
\<close>

theorem handleStorage_empty_newValue_counterexample:
  "key \<lparr>key = Some ''theme'', newValue = Some []\<rparr>
     = Some (storageKey (default_config\<lparr>defaultTheme := ''dark''\<rparr>)) \<and>
   newValue \<lparr>key = Some ''theme'', newValue = Some []\<rparr> \<noteq> None \<and>
   fst (handleStorage (default_config\<lparr>defaultTheme := ''dark''\<rparr>)
     \<lparr>key = Some ''theme'', newValue = Some []\<rparr> fresh_browser)
   \<noteq> fst (applyTheme (default_config\<lparr>defaultTheme := ''dark''\<rparr>)
            (newValue \<lparr>key = Some ''theme'', newValue = Some []\<rparr>) None fresh_browser) \<and>
   attributes (documentElement
     (fst (handleStorage (default_config\<lparr>defaultTheme := ''dark''\<rparr>)
        \<lparr>key = Some ''theme'', newValue = Some []\<rparr> fresh_browser))) ''data-theme''
     = Some ''dark''"
proof -
  have a: "attributes (documentElement
          (fst (handleStorage (default_config\<lparr>defaultTheme := ''dark''\<rparr>)
             \<lparr>key = Some ''theme'', newValue = Some []\<rparr> fresh_browser))) ''data-theme''
        = Some ''dark''"
    by (simp add: eval_defs)
  have b: "attributes (documentElement
          (fst (applyTheme (default_config\<lparr>defaultTheme := ''dark''\<rparr>)
             (newValue \<lparr>key = Some ''theme'', newValue = Some []\<rparr>) None fresh_browser)))
          ''data-theme'' = None"
    by (simp add: applyTheme_def fresh_browser_def blank_element_def)
  have c: "fst (handleStorage (default_config\<lparr>defaultTheme := ''dark''\<rparr>)
       \<lparr>key = Some ''theme'', newValue = Some []\<rparr> fresh_browser)
     \<noteq> fst (applyTheme (default_config\<lparr>defaultTheme := ''dark''\<rparr>)
            (newValue \<lparr>key = Some ''theme'', newValue = Some []\<rparr>) None fresh_browser)"
  proof
    assume eq: "fst (handleStorage (default_config\<lparr>defaultTheme := ''dark''\<rparr>)
       \<lparr>key = Some ''theme'', newValue = Some []\<rparr> fresh_browser)
     = fst (applyTheme (default_config\<lparr>defaultTheme := ''dark''\<rparr>)
            (newValue \<lparr>key = Some ''theme'', newValue = Some []\<rparr>) None fresh_browser)"
    from a [unfolded eq] b show False by (simp only: option.distinct)
  qed
  have k: "key \<lparr>key = Some ''theme'', newValue = Some []\<rparr>
     = Some (storageKey (default_config\<lparr>defaultTheme := ''dark''\<rparr>))"
    and n: "newValue \<lparr>key = Some ''theme'', newValue = Some []\<rparr> \<noteq> None"
    by (simp_all add: default_config_def)
  from k n c a show ?thesis by (simp only: simp_thms)
qed

subsection \<open>C7: setTheme is idempotent\<close>

text \<open>
  C7: for every theme value \<open>x\<close> (a theme, the empty string or none) and every state,
  a second \<open>setTheme x\<close> right after the first leaves the stored values and the root
  element (class list, attributes, color scheme) as the first one left them, also where a
  DOM call throws and \<open>applyTheme\<close> stops half way.
\<close>

theorem setTheme_idempotent:
  "ls_items (setTheme cfg x (setTheme cfg x w)) = ls_items (setTheme cfg x w) \<and>
   documentElement (setTheme cfg x (setTheme cfg x w)) = documentElement (setTheme cfg x w)"
proof -
  let ?e = "\<lparr>detail = x\<rparr>"
  let ?w1 = "fst (handleSetTheme cfg ?e w)"
  let ?t = "chosen_theme cfg ?e w"
  have t: "chosen_theme cfg ?e ?w1 = ?t" by (rule chosen_theme_again)
  have r: "resolved_of cfg ?t ?w1 = resolved_of cfg ?t w"
    by (rule resolved_of_cong) (simp add: handleSetTheme_fields)
  have "ls_items (fst (handleSetTheme cfg ?e ?w1)) = ls_items ?w1"
    by (auto simp: handleSetTheme_items [of cfg ?e ?w1] t saveToLS_items handleSetTheme_fields
        handleSetTheme_items [of cfg ?e w])
  moreover have "documentElement (fst (handleSetTheme cfg ?e ?w1)) = documentElement ?w1"
    by (simp add: handleSetTheme_documentElement [of cfg ?e ?w1] t r
        handleSetTheme_documentElement [of cfg ?e w] root_after_idem)
  ultimately show ?thesis by (simp add: setTheme_def)
qed

subsection \<open>C8: the color-scheme hint\<close>

text \<open>
  C8, as the code has it: when the color-scheme flag is enabled, the theme is a non-empty
  string and no attribute write of this \<open>applyTheme\<close> throws, \<open>applyTheme\<close> sets the color
  scheme of the root element it writes to (the current document's, or the passed
  document's) to the resolved theme if that is light or dark, otherwise to the default
  theme if that is light or dark, and otherwise clears it. The writes do not throw when
  every class token and attribute name is valid (\<open>apply_error_valid\<close>).
\<close>

theorem applyTheme_colorScheme:
  assumes "enableColorScheme cfg" and "t \<noteq> []"
    and "snd (snd (applyTheme cfg (Some t) None w)) = None"
  shows "colorScheme (documentElement (fst (applyTheme cfg (Some t) None w))) =
           (if resolved_of cfg t w = ''light'' \<or> resolved_of cfg t w = ''dark''
            then Some (resolved_of cfg t w)
            else if defaultTheme cfg = ''light'' \<or> defaultTheme cfg = ''dark''
            then Some (defaultTheme cfg)
            else None) \<and>
         snd (snd (applyTheme cfg (Some t) (Some nd) w)) = None \<and>
         map_option colorScheme (fst (snd (applyTheme cfg (Some t) (Some nd) w))) =
           Some (if resolved_of cfg t w = ''light'' \<or> resolved_of cfg t w = ''dark''
                 then Some (resolved_of cfg t w)
                 else if defaultTheme cfg = ''light'' \<or> defaultTheme cfg = ''dark''
                 then Some (defaultTheme cfg)
                 else None)"
proof -
  have "apply_error cfg (resolved_of cfg t w) = None"
    using assms(2,3) by (simp add: applyTheme_error)
  with assms(1,2) show ?thesis
    by (auto simp: applyTheme_documentElement applyTheme_new_document applyTheme_error
        root_after_colorScheme colorScheme_of_def colorSchemes_def Let_def)
qed

text \<open>
  The system theme resolved to dark; a custom theme written to the class and to
  \<^verbatim>\<open>data-theme\<close>, with light as the default; a custom theme with \<^verbatim>\<open>system\<close> as the
  default, which clears a color scheme that was set.
\<close>

theorem applyTheme_colorScheme_witness:
  "colorScheme (documentElement (fst (applyTheme default_config (Some ''system'') None
      (fresh_browser\<lparr>prefersDark := True\<rparr>)))) = Some ''dark'' \<and>
   colorScheme (documentElement (fst (applyTheme
      (default_config\<lparr>attribute := Many [''class'', ''data-theme''], defaultTheme := ''light''\<rparr>)
      (Some ''sepia'') None fresh_browser))) = Some ''light'' \<and>
   colorScheme (documentElement (fst (applyTheme default_config (Some ''sepia'') None
      (fresh_browser\<lparr>documentElement := blank_element\<lparr>colorScheme := Some ''dark''\<rparr>\<rparr>))))
     = None"
proof -
  have 1: "snd (snd (applyTheme default_config (Some ''system'') None
             (fresh_browser\<lparr>prefersDark := True\<rparr>))) = None"
    by (simp add: eval_defs)
  have 2: "snd (snd (applyTheme
             (default_config\<lparr>attribute := Many [''class'', ''data-theme''],
                defaultTheme := ''light''\<rparr>)
             (Some ''sepia'') None fresh_browser)) = None"
    by (simp add: eval_defs)
  have 3: "snd (snd (applyTheme default_config (Some ''sepia'') None
             (fresh_browser\<lparr>documentElement := blank_element\<lparr>colorScheme := Some ''dark''\<rparr>\<rparr>)))
           = None"
    by (simp add: eval_defs)
  show ?thesis
    using applyTheme_colorScheme [OF _ _ 1] applyTheme_colorScheme [OF _ _ 2]
      applyTheme_colorScheme [OF _ _ 3]
    by (simp add: default_config_def resolved_of_def getSystemTheme_def fresh_browser_def)
qed

text \<open>
  As stated, C8 fails in two ways. With \<^verbatim>\<open>class\<close> as the attribute and light as the
  default, \<^verbatim>\<open>setTheme('my theme')\<close> stores the theme and then \<^verbatim>\<open>classList.add\<close> throws
  on the white space: \<open>applyTheme\<close> is left before the color scheme is written, and it
  stays unset where light should have been written. With the empty string as the default
  theme, \<^verbatim>\<open>setTheme('dark')\<close> followed by a storage event that deletes the entry applies
  the empty string: \<^verbatim>\<open>if (!resolved) return\<close> leaves the color scheme dark where it should
  have been cleared.
\<close>

theorem applyTheme_colorScheme_counterexample:
  "enableColorScheme (default_config\<lparr>attribute := Single ''class'', defaultTheme := ''light''\<rparr>) \<and>
   applyTheme (default_config\<lparr>attribute := Single ''class'', defaultTheme := ''light''\<rparr>)
     (Some ''my theme'') None fresh_browser = (fresh_browser, None, Some InvalidCharacterError) \<and>
   handleSetTheme (default_config\<lparr>attribute := Single ''class'', defaultTheme := ''light''\<rparr>)
     \<lparr>detail = Some ''my theme''\<rparr> fresh_browser
     = (fresh_browser\<lparr>ls_items := [''theme'' \<mapsto> ''my theme'']\<rparr>, Some InvalidCharacterError) \<and>
   colorScheme (documentElement fresh_browser) = None \<and>
   colorScheme_of (default_config\<lparr>attribute := Single ''class'', defaultTheme := ''light''\<rparr>)
     (resolved_of (default_config\<lparr>attribute := Single ''class'', defaultTheme := ''light''\<rparr>)
        ''my theme'' fresh_browser) = Some ''light'' \<and>
   enableColorScheme (default_config\<lparr>defaultTheme := []\<rparr>) \<and>
   colorScheme (documentElement (fst
     (handleStorage (default_config\<lparr>defaultTheme := []\<rparr>) \<lparr>key = Some ''theme'', newValue = None\<rparr>
        (fst (handleSetTheme (default_config\<lparr>defaultTheme := []\<rparr>) \<lparr>detail = Some ''dark''\<rparr>
           fresh_browser))))) = Some ''dark'' \<and>
   colorScheme_of (default_config\<lparr>defaultTheme := []\<rparr>)
     (resolved_of (default_config\<lparr>defaultTheme := []\<rparr>) [] fresh_browser) = None"
  by (simp add: eval_defs)

subsection \<open>C9: the exported getTheme helpers\<close>

text \<open>
  C9 says that both exported helpers return undefined for every input and every state.
  They do whenever they return (\<open>getTheme_helpers_return\<close>), but the helper of
  \<^verbatim>\<open>utils.ts\<close> reads \<^verbatim>\<open>localStorage\<close> outside any \<^verbatim>\<open>try\<close>: with storage unavailable
  it throws, where \<open>getTheme\<close> of the script catches the same read and returns the
  fallback. The helper of the frontmatter throws where there is no \<^verbatim>\<open>document\<close>.
\<close>

theorem getTheme_helpers_throw:
  "utils_getTheme (Some ''dark'') (fresh_browser\<lparr>ls_available := False\<rparr>) = Inl SecurityError \<and>
   getTheme ''theme'' ''dark'' (fresh_browser\<lparr>ls_available := False\<rparr>) = ''dark'' \<and>
   frontmatter_getTheme None = Inl ReferenceError"
  by (simp add: eval_defs)

subsection \<open>C10: setTheme without a theme, and applying a falsy theme\<close>

text \<open>
  C10: when the \<^verbatim>\<open>set-theme\<close> event carries no theme or a falsy one, \<open>handleSetTheme\<close>
  saves and applies the theme that \<open>getResolveTheme\<close> returned before the write, which is
  never \<^verbatim>\<open>system\<close>: after a successful write it is the stored value, and after a failed
  one storage is as it was. Applying a falsy theme changes neither the browser state nor
  the passed document, and throws nothing.
\<close>

theorem handleSetTheme_falsy:
  "(\<not> truthy (detail e) \<longrightarrow>
      getResolveTheme cfg w \<noteq> ''system'' \<and>
      fst (handleSetTheme cfg e w) =
        fst (applyTheme cfg (Some (getResolveTheme cfg w)) None
               (saveToLS (storageKey cfg) (getResolveTheme cfg w) w)) \<and>
      snd (handleSetTheme cfg e w) =
        snd (snd (applyTheme cfg (Some (getResolveTheme cfg w)) None
               (saveToLS (storageKey cfg) (getResolveTheme cfg w) w))) \<and>
      (case ls_setItem (storageKey cfg) (getResolveTheme cfg w) w of
         Inr w' \<Rightarrow>
           ls_items (fst (handleSetTheme cfg e w)) (storageKey cfg) = Some (getResolveTheme cfg w)
       | Inl err \<Rightarrow> ls_items (fst (handleSetTheme cfg e w)) = ls_items w)) \<and>
   (\<not> truthy theme \<longrightarrow> applyTheme cfg theme doc w = (w, doc, None))"
  by (auto simp: handleSetTheme_def outcome_def truthy_def applyTheme_storage saveToLS_def
      ls_setItem_def getResolveTheme_not_system applyTheme_falsy Let_def
      split: option.splits sum.splits)

text \<open>
  An event without a theme under a dark system preference stores dark, and applying the
  empty string to a fresh page changes nothing.
\<close>

theorem handleSetTheme_falsy_witness:
  "ls_items (fst (handleSetTheme default_config \<lparr>detail = None\<rparr>
      (fresh_browser\<lparr>prefersDark := True\<rparr>))) ''theme'' = Some ''dark'' \<and>
   applyTheme default_config (Some []) None fresh_browser = (fresh_browser, None, None)"
  using handleSetTheme_falsy
          [of "\<lparr>detail = None\<rparr>" default_config "fresh_browser\<lparr>prefersDark := True\<rparr>"
              "Some []" None]
        handleSetTheme_falsy
          [of "\<lparr>detail = None\<rparr>" default_config fresh_browser "Some []" None]
  by (simp add: eval_defs)

end
